theory Spec2Isabelle
  imports Main "HOL-Library.AList"
begin

section \<open>The publish orchestrator of joplin-plugin-pages-publisher\<close>

text \<open>
  A shallow embedding of \<^verbatim>\<open>src/domain/service/PublishService.ts\<close> (the class
  \<^verbatim>\<open>PublishService\<close>) and of the utility module holding \<^verbatim>\<open>isUnset\<close> and
  \<^verbatim>\<open>selfish\<close>.

  The service is a single-threaded asynchronous object. Every \<^verbatim>\<open>async\<close> method is cut at
  its \<^verbatim>\<open>await\<close>s: one function for the synchronous part up to the first suspension,
  and one function per resumption, which receives how the awaited promise settled and the
  state of the service \<^emph>\<open>at that moment\<close>. Whatever ran in between (another method, an
  event handler) is an arbitrary change of that state, so a theorem about a resumption that
  holds for every state covers every interleaving. Calls to the external collaborators
  (generator, git client, github client, repositories, console) are appended to a log kept
  beside the fields; their answers are parameters.
\<close>

subsection \<open>Strings\<close>

text \<open>
  A JavaScript string is modelled as a \<^typ>\<open>string\<close>, each character read as one UTF-16
  code unit below 256. On these, \<^verbatim>\<open>String.prototype.trim\<close> removes the code units
  9 to 13, 32 and 160 from both ends.
\<close>

definition isWhiteSpace :: "char \<Rightarrow> bool" where
  "isWhiteSpace c = (of_char c \<in> {9, 10, 11, 12, 13, 32, 160 :: nat})"

definition trim :: "string \<Rightarrow> string" where
  "trim s = rev (dropWhile isWhiteSpace (rev (dropWhile isWhiteSpace s)))"

definition digit :: "nat \<Rightarrow> char" where
  "digit d = ''0123456789'' ! d"

text \<open>The decimal numeral that a template literal prints for an array length.\<close>

fun string_of_nat :: "nat \<Rightarrow> string" where
  "string_of_nat n =
     (if n < 10 then [digit n] else string_of_nat (n div 10) @ [digit (n mod 10)])"

declare string_of_nat.simps [simp del]

subsection \<open>Values and plain objects\<close>

text \<open>
  Modelled from the spec: the type \<^verbatim>\<open>Github\<close> of \<^verbatim>\<open>model/GitClient\<close> is not among the
  sources. Its fields hold strings; a field can also be absent, \<^verbatim>\<open>undefined\<close> or
  \<^verbatim>\<open>null\<close> (the spec's unset values). A plain object is an association list in property
  order, looked up with \<^const>\<open>map_of\<close>.
\<close>

datatype jsval = JUndefined | JNull | JString string

type_synonym obj = "(string \<times> jsval) list"

text \<open>\<^verbatim>\<open>export const isUnset = (value) => isNil(value) || value === ''\<close>\<close>

definition isNil :: "jsval \<Rightarrow> bool" where
  "isNil v = (v = JNull \<or> v = JUndefined)"

definition isUnset :: "jsval \<Rightarrow> bool" where
  "isUnset v = (isNil v \<or> v = JString [])"

text \<open>
  lodash on these values: \<^verbatim>\<open>isEmpty\<close> is true of \<^verbatim>\<open>null\<close>, of \<^verbatim>\<open>undefined\<close> and of
  a string of length 0; \<^verbatim>\<open>pick(o, keys)\<close> copies, in the order of \<^verbatim>\<open>keys\<close>, the keys that
  are in \<^verbatim>\<open>o\<close> (none when \<^verbatim>\<open>o\<close> is \<^verbatim>\<open>null\<close>); \<^verbatim>\<open>omit(o, keys)\<close> copies \<^verbatim>\<open>o\<close> without
  \<^verbatim>\<open>keys\<close>; \<^verbatim>\<open>some(o, p)\<close> asks whether \<^verbatim>\<open>p\<close> holds of a property value.
  \<^verbatim>\<open>Object.assign(t, s)\<close> writes the properties of \<^verbatim>\<open>s\<close> into \<^verbatim>\<open>t\<close> one by one.
\<close>

fun isEmpty :: "jsval \<Rightarrow> bool" where
  "isEmpty JUndefined = True"
| "isEmpty JNull = True"
| "isEmpty (JString s) = (length s = 0)"

fun pick :: "obj option \<Rightarrow> string list \<Rightarrow> obj" where
  "pick None keys = []"
| "pick (Some ob) [] = []"
| "pick (Some ob) (k # keys) =
     (case map_of ob k of
        None \<Rightarrow> pick (Some ob) keys
      | Some v \<Rightarrow> (k, v) # pick (Some ob) keys)"

fun omit :: "obj \<Rightarrow> string list \<Rightarrow> obj" where
  "omit ob [] = ob"
| "omit ob (k # keys) = omit (AList.delete k ob) keys"

definition some :: "obj \<Rightarrow> (jsval \<Rightarrow> bool) \<Rightarrow> bool" where
  "some ob p = list_ex (\<lambda>kv. p (snd kv)) ob"

definition assign :: "obj \<Rightarrow> obj \<Rightarrow> obj" where
  "assign tgt src = fold (\<lambda>kv. AList.update (fst kv) (snd kv)) src tgt"

subsection \<open>Enumerations, errors, progress records\<close>

datatype LocalRepoStatus = Ready | Fail | Initializing | MissingRepository

text \<open>
  Modelled from the spec: \<^verbatim>\<open>model/Publishing\<close> is not among the sources. It declares the
  enumeration \<^verbatim>\<open>PublishResults\<close>, the class \<^verbatim>\<open>PublishError\<close> (a \<^verbatim>\<open>type\<close> and an optional
  message), the two progress records and their initial, empty values.
\<close>

datatype PublishResults = Terminated | Fail | Success

text \<open>
  What a rejected promise carries: a \<^verbatim>\<open>PublishError\<close> with its type and its message
  (\<open>None\<close> when the message is \<^verbatim>\<open>undefined\<close>), or any other \<^verbatim>\<open>Error\<close> with its message.
\<close>

datatype thrown = PublishError PublishResults "string option" | Error string

record PublishingProgress =
  phase :: string
  message :: string
  result :: "PublishResults option"

text \<open>
  The message of the generating progress is declared a string, but \<^verbatim>\<open>generateSite\<close> stores
  there whatever the \<^verbatim>\<open>message\<close> property of a caught value holds: \<^verbatim>\<open>undefined\<close>, a string,
  or any other value (named by a number).
\<close>

datatype jsmessage = MUndefined | MString string | MOther nat

record GeneratingProgress =
  g_result :: "string option"
  g_message :: jsmessage

text \<open>
  A partial progress record, as an event carries it and \<^verbatim>\<open>Object.assign\<close> overlays it: a
  field is \<open>None\<close> when the key is absent.
\<close>

record PartialPublishingProgress =
  p_phase :: "string option"
  p_message :: "string option"
  p_result :: "PublishResults option option"

record PartialGeneratingProgress =
  pg_result :: "string option option"
  pg_message :: "jsmessage option"

definition initialPublishProgress :: PublishingProgress where
  "initialPublishProgress = \<lparr>phase = [], message = [], result = None\<rparr>"

definition initialGeneratingProgress :: GeneratingProgress where
  "initialGeneratingProgress = \<lparr>g_result = None, g_message = MString []\<rparr>"

definition whole_pp :: "PublishingProgress \<Rightarrow> PartialPublishingProgress" where
  "whole_pp p = \<lparr>p_phase = Some (phase p), p_message = Some (message p),
     p_result = Some (result p)\<rparr>"

definition whole_gp :: "GeneratingProgress \<Rightarrow> PartialGeneratingProgress" where
  "whole_gp p = \<lparr>pg_result = Some (g_result p), pg_message = Some (g_message p)\<rparr>"

definition assign_pp :: "PublishingProgress \<Rightarrow> PartialPublishingProgress \<Rightarrow> PublishingProgress" where
  "assign_pp t p =
     \<lparr>phase = (case p_phase p of None \<Rightarrow> phase t | Some x \<Rightarrow> x),
      message = (case p_message p of None \<Rightarrow> message t | Some x \<Rightarrow> x),
      result = (case p_result p of None \<Rightarrow> result t | Some x \<Rightarrow> x)\<rparr>"

definition assign_gp :: "GeneratingProgress \<Rightarrow> PartialGeneratingProgress \<Rightarrow> GeneratingProgress" where
  "assign_gp t p =
     \<lparr>g_result = (case pg_result p of None \<Rightarrow> g_result t | Some x \<Rightarrow> x),
      g_message = (case pg_message p of None \<Rightarrow> g_message t | Some x \<Rightarrow> x)\<rparr>"

fun PUBLISH_RESULT_MESSAGE :: "PublishResults \<Rightarrow> string" where
  "PUBLISH_RESULT_MESSAGE Terminated = ''Publishing terminated.''"
| "PUBLISH_RESULT_MESSAGE PublishResults.Fail =
     ''This is an unexpected error, you can retry, and report it as a Github issue''"
| "PUBLISH_RESULT_MESSAGE Success = []"

subsection \<open>The service and its collaborators\<close>

text \<open>The calls the service makes on its collaborators, in the order it makes them.\<close>

datatype subscription =
  GitProgress | GitMessage | GitLocalRepoStatusChanged | GithubInfoChanged | GeneratorPageGenerated

datatype call =
    GeneratorGetOutputDir
  | GeneratorGenerateSite
  | GitInit string
  | Subscribe subscription
  | GitPush "string list" bool
  | GitTerminate
  | GithubInit obj
  | GithubGetRepositoryName
  | GithubCreateRepository
  | GetGithubToken
  | GetGithubInfo
  | SaveGithubInfo obj
  | GetLatestWarning
  | ConsoleError string

record PublishService =
  files :: "string list"
  localRepoStatus :: LocalRepoStatus
  repositoryName :: string
  githubInfo :: "obj option"
  isGenerating :: bool
  isPublishing :: bool
  outputDir :: string
  generatingProgress :: GeneratingProgress
  publishingProgress :: PublishingProgress
  calls :: "call list"

definition invoke :: "call \<Rightarrow> PublishService \<Rightarrow> PublishService" where
  "invoke c s = s\<lparr>calls := calls s @ [c]\<rparr>"

text \<open>The field initialisers of the class.\<close>

definition new_service :: PublishService where
  "new_service =
     \<lparr>files = [], localRepoStatus = Initializing, repositoryName = [], githubInfo = None,
      isGenerating = False, isPublishing = False, outputDir = [],
      generatingProgress = initialGeneratingProgress,
      publishingProgress = initialPublishProgress, calls = []\<rparr>"

definition isRepositoryMissing :: "PublishService \<Rightarrow> bool" where
  "isRepositoryMissing s = (localRepoStatus s = MissingRepository)"

definition requiredKeys :: "string list" where
  "requiredKeys = [''userName'', ''email'', ''token'']"

definition isGithubInfoValid :: "PublishService \<Rightarrow> bool" where
  "isGithubInfoValid s =
     (let keyInfos = pick (githubInfo s) requiredKeys
      in length keyInfos = length requiredKeys \<and> \<not> some keyInfos isEmpty)"

subsection \<open>Suspension and settlement\<close>

text \<open>
  An activation of an \<^verbatim>\<open>async\<close> method either waits at an \<^verbatim>\<open>await\<close>, with what it
  still needs of its local variables, or its promise has settled. A promise it waits for
  resolves with a value or rejects with what was thrown.
\<close>

datatype 'k activation = Awaiting 'k | Returned | Threw thrown

datatype 'a settled = Resolved 'a | Rejected thrown

text \<open>
  The generator's \<^verbatim>\<open>generateSite\<close> resolves with the file list, or rejects, with any value
  at all: no type bounds what a promise rejects with. Of a rejection \<^verbatim>\<open>generateSite\<close> reads
  the \<^verbatim>\<open>message\<close> property only. On a value other than \<^verbatim>\<open>null\<close> and \<^verbatim>\<open>undefined\<close> the read
  gives what \<open>GenerationFailed\<close> carries: the text of an \<^verbatim>\<open>Error\<close>, \<^verbatim>\<open>undefined\<close> for a value
  without the property (a thrown string, say). On \<^verbatim>\<open>null\<close> and \<^verbatim>\<open>undefined\<close> the read itself
  throws a \<^verbatim>\<open>TypeError\<close>; \<open>GenerationFailedNullish\<close> carries the message the engine gives
  that error.
\<close>

datatype generated =
    Generated "string list"
  | GenerationFailed jsmessage
  | GenerationFailedNullish string

datatype init_cont = AwaitOutputDir | AwaitGithubToken | AwaitGithubInfo obj

datatype generate_cont = AwaitGenerateSite

text \<open>
  \<^verbatim>\<open>publish\<close> waits for \<^verbatim>\<open>github.createRepository()\<close>, for the timer of 3 seconds and for
  \<^verbatim>\<open>git.push\<close>; up to the push its local constant \<^verbatim>\<open>needToInit\<close> is still to be read.
\<close>

datatype publish_cont = AwaitCreateRepository bool | AwaitTimeout bool | AwaitPush

subsection \<open>The methods\<close>

definition refreshGeneratingProgress ::
    "PartialGeneratingProgress \<Rightarrow> PublishService \<Rightarrow> PublishService" where
  "refreshGeneratingProgress progress s =
     s\<lparr>generatingProgress := assign_gp (generatingProgress s) progress\<rparr>"

definition refreshPublishingProgress ::
    "PartialPublishingProgress \<Rightarrow> PublishService \<Rightarrow> PublishService" where
  "refreshPublishingProgress progress s =
     s\<lparr>publishingProgress := assign_pp (publishingProgress s) progress\<rparr>"

definition handleLocalRepoStatusChanged :: "LocalRepoStatus \<Rightarrow> PublishService \<Rightarrow> PublishService" where
  "handleLocalRepoStatusChanged status s =
     (let s1 = s\<lparr>localRepoStatus := status\<rparr>
      in if status = Initializing
         then refreshPublishingProgress
                \<lparr>p_phase = Some ''Local repository initializing...'', p_message = Some [],
                 p_result = None\<rparr> s1
         else s1)"

text \<open>
  \<^verbatim>\<open>initGithubClient\<close> has no \<^verbatim>\<open>await\<close>. \<open>name\<close> is what \<^verbatim>\<open>github.getRepositoryName()\<close>
  answers when it is asked.
\<close>

definition initGithubClient :: "string \<Rightarrow> PublishService \<Rightarrow> PublishService" where
  "initGithubClient name s =
     (if \<not> isGithubInfoValid s then s
      else case githubInfo s of
        None \<Rightarrow> s
      | Some info \<Rightarrow>
          (invoke GithubGetRepositoryName (invoke (GithubInit info) s))\<lparr>repositoryName := name\<rparr>)"

text \<open>
  \<^verbatim>\<open>init\<close>, started by the constructor, one function per \<^verbatim>\<open>await\<close>. The handlers are
  registered after the first one. \<open>DEFAULT_GITHUB\<close> (of \<^verbatim>\<open>model/Publishing\<close>, not among
  the sources) is a parameter. \<^verbatim>\<open>x || ''\<close> keeps a non-empty string and gives the empty
  string otherwise. A rejected \<^verbatim>\<open>await\<close> rejects \<^verbatim>\<open>init\<close>.
\<close>

definition init :: "PublishService \<Rightarrow> init_cont activation \<times> PublishService" where
  "init s = (Awaiting AwaitOutputDir, invoke GeneratorGetOutputDir s)"

fun or_empty :: "jsval \<Rightarrow> jsval" where
  "or_empty (JString (c # cs)) = JString (c # cs)"
| "or_empty v = JString []"

fun init_outputDir ::
    "string settled \<Rightarrow> PublishService \<Rightarrow> init_cont activation \<times> PublishService" where
  "init_outputDir (Rejected e) s = (Threw e, s)"
| "init_outputDir (Resolved dir) s =
     (Awaiting AwaitGithubToken,
      invoke GetGithubToken
        (fold (\<lambda>e. invoke (Subscribe e))
           [GitProgress, GitMessage, GitLocalRepoStatusChanged, GithubInfoChanged,
            GeneratorPageGenerated]
           (invoke (GitInit dir) (s\<lparr>outputDir := dir\<rparr>))))"

fun init_githubToken ::
    "obj \<Rightarrow> jsval settled \<Rightarrow> PublishService \<Rightarrow> init_cont activation \<times> PublishService" where
  "init_githubToken DEFAULT_GITHUB (Rejected e) s = (Threw e, s)"
| "init_githubToken DEFAULT_GITHUB (Resolved t) s =
     (Awaiting (AwaitGithubInfo (assign DEFAULT_GITHUB [(''token'', or_empty t)])),
      invoke GetGithubInfo s)"

fun init_githubInfo ::
    "obj \<Rightarrow> string \<Rightarrow> obj settled \<Rightarrow> PublishService
      \<Rightarrow> init_cont activation \<times> PublishService" where
  "init_githubInfo info name (Rejected e) s = (Threw e, s)"
| "init_githubInfo info name (Resolved saved) s =
     (Returned, initGithubClient name (s\<lparr>githubInfo := Some (assign info saved)\<rparr>))"

definition saveGithubInfo :: "obj \<Rightarrow> string \<Rightarrow> PublishService \<Rightarrow> PublishService" where
  "saveGithubInfo githubInfo_arg name s =
     (case githubInfo s of
        Some current \<Rightarrow>
          (let githubInfo' = omit githubInfo_arg [''token''];
               merged = assign current githubInfo';
               s1 = s\<lparr>githubInfo := Some merged\<rparr>;
               s2 = invoke (SaveGithubInfo (omit merged [''token''])) s1
           in initGithubClient name s2)
      | None \<Rightarrow> invoke (ConsoleError ''this.githubInfo.value is null'') s)"

text \<open>
  \<^verbatim>\<open>generateSite\<close>. \<open>forbidden\<close> is whether \<^verbatim>\<open>appService.getLatestWarning(FORBIDDEN.GENERATE)\<close>
  answers a truthy value; it is asked only when no generation is running.
\<close>

definition generateSite ::
    "bool \<Rightarrow> PublishService \<Rightarrow> generate_cont activation \<times> PublishService" where
  "generateSite forbidden s =
     (if isGenerating s then (Threw (Error ''generating!''), s)
      else if forbidden then (Threw (Error ''generating!''), invoke GetLatestWarning s)
      else (Awaiting AwaitGenerateSite,
            invoke GeneratorGenerateSite
              (refreshGeneratingProgress (whole_gp initialGeneratingProgress)
                 ((invoke GetLatestWarning s)\<lparr>isGenerating := True\<rparr>))))"

fun generateSite_resume ::
    "generated \<Rightarrow> PublishService \<Rightarrow> generate_cont activation \<times> PublishService" where
  "generateSite_resume (Generated fs) s =
     (Returned,
      s\<lparr>files := fs,
        generatingProgress := (generatingProgress s)
          \<lparr>g_result := Some ''success'',
           g_message := MString (string_of_nat (length fs) @ '' files in totals'')\<rparr>,
        isGenerating := False\<rparr>)"
| "generateSite_resume (GenerationFailed text) s =
     (Returned,
      s\<lparr>generatingProgress := (generatingProgress s)
          \<lparr>g_result := Some ''fail'', g_message := text\<rparr>,
        isGenerating := False\<rparr>)"
| "generateSite_resume (GenerationFailedNullish typeError) s =
     (Threw (Error typeError),
      s\<lparr>generatingProgress := (generatingProgress s)\<lparr>g_result := Some ''fail''\<rparr>,
        isGenerating := False\<rparr>)"

definition stopPublishing :: "PublishService \<Rightarrow> PublishService" where
  "stopPublishing s = invoke GitTerminate (s\<lparr>isPublishing := False\<rparr>)"

text \<open>\<^verbatim>\<open>publish\<close>: the constant \<^verbatim>\<open>needToInit\<close>, the handler of the \<^verbatim>\<open>catch\<close>, the \<^verbatim>\<open>finally\<close>.\<close>

definition needToInit :: "bool \<Rightarrow> PublishService \<Rightarrow> bool" where
  "needToInit needToCreateRepo s =
     (result (publishingProgress s) = Some PublishResults.Fail \<or> needToCreateRepo \<or>
      localRepoStatus s = LocalRepoStatus.Fail)"

definition publish_finally ::
    "publish_cont activation \<Rightarrow> PublishService \<Rightarrow> publish_cont activation \<times> PublishService" where
  "publish_finally a s = (a, s\<lparr>isPublishing := False\<rparr>)"

fun publish_catch :: "thrown \<Rightarrow> PublishService \<Rightarrow> publish_cont activation \<times> PublishService" where
  "publish_catch (PublishError type msg) s =
     publish_finally Returned
       (s\<lparr>publishingProgress := (publishingProgress s)
           \<lparr>result := Some type,
            message := trim ((case msg of None \<Rightarrow> [] | Some m \<Rightarrow> m) @ '' '' @
                             PUBLISH_RESULT_MESSAGE type)\<rparr>\<rparr>)"
| "publish_catch (Error m) s = publish_finally (Threw (Error m)) s"

definition publish :: "bool \<Rightarrow> PublishService \<Rightarrow> publish_cont activation \<times> PublishService" where
  "publish needToCreateRepo s =
     (if isPublishing s then (Returned, s)
      else if \<not> isGithubInfoValid s then (Threw (Error ''invalid github info''), s)
      else
        let needToInit' = needToInit needToCreateRepo s;
            s1 = (if needToInit'
                  then refreshPublishingProgress (whole_pp initialPublishProgress) s else s);
            s2 = s1\<lparr>isPublishing := True\<rparr>
        in if needToCreateRepo \<and> isRepositoryMissing s2
           then (Awaiting (AwaitCreateRepository needToInit'), invoke GithubCreateRepository s2)
           else (Awaiting (AwaitTimeout needToInit'), s2))"

text \<open>
  The resumptions of \<^verbatim>\<open>publish\<close>. The timer's promise only resolves. \<^verbatim>\<open>this.files\<close> is read
  when \<^verbatim>\<open>git.push\<close> is called, that is when the timer has fired.
\<close>

fun publish_resume ::
    "publish_cont \<Rightarrow> unit settled \<Rightarrow> PublishService \<Rightarrow> publish_cont activation \<times> PublishService" where
  "publish_resume (AwaitCreateRepository n) (Resolved u) s = (Awaiting (AwaitTimeout n), s)"
| "publish_resume (AwaitCreateRepository n) (Rejected e) s = publish_catch e s"
| "publish_resume (AwaitTimeout n) r s = (Awaiting AwaitPush, invoke (GitPush (files s) n) s)"
| "publish_resume AwaitPush (Resolved u) s =
     publish_finally Returned
       (s\<lparr>publishingProgress := (publishingProgress s)\<lparr>result := Some Success\<rparr>\<rparr>)"
| "publish_resume AwaitPush (Rejected e) s = publish_catch e s"

subsection \<open>Runs of the service\<close>

text \<open>
  What the collaborators emit, with the handler \<^verbatim>\<open>init\<close> registers for each, and what can
  happen to the service: a method is called, or one of its activations is resumed. A
  resumption names the continuation it resumes; a run may resume any continuation at any
  time, which covers every schedule the event loop can produce.
\<close>

datatype emitted =
    Progress PartialPublishingProgress
  | Message string
  | LocalRepoStatusChanged LocalRepoStatus
  | InfoChanged
  | PageGenerated PartialGeneratingProgress

fun handle :: "emitted \<Rightarrow> PublishService \<Rightarrow> PublishService" where
  "handle (Progress p) s = refreshPublishingProgress p s"
| "handle (Message m) s =
     refreshPublishingProgress \<lparr>p_phase = None, p_message = Some m, p_result = None\<rparr> s"
| "handle (LocalRepoStatusChanged status) s = handleLocalRepoStatusChanged status s"
| "handle InfoChanged s = refreshPublishingProgress (whole_pp initialPublishProgress) s"
| "handle (PageGenerated p) s = refreshGeneratingProgress p s"

datatype event =
    Constructed
  | OutputDirSettled "string settled"
  | GithubTokenSettled obj "jsval settled"
  | GithubInfoSettled obj string "obj settled"
  | Emitted emitted
  | SaveGithubInfoCalled obj string
  | GenerateSiteCalled bool
  | GenerateSiteSettled generated
  | PublishCalled bool
  | PublishResumed publish_cont "unit settled"
  | StopPublishingCalled

fun fire :: "event \<Rightarrow> PublishService \<Rightarrow> PublishService" where
  "fire Constructed s = snd (init s)"
| "fire (OutputDirSettled r) s = snd (init_outputDir r s)"
| "fire (GithubTokenSettled d r) s = snd (init_githubToken d r s)"
| "fire (GithubInfoSettled info name r) s = snd (init_githubInfo info name r s)"
| "fire (Emitted e) s = handle e s"
| "fire (SaveGithubInfoCalled info name) s = saveGithubInfo info name s"
| "fire (GenerateSiteCalled forbidden) s = snd (generateSite forbidden s)"
| "fire (GenerateSiteSettled r) s = snd (generateSite_resume r s)"
| "fire (PublishCalled needToCreateRepo) s = snd (publish needToCreateRepo s)"
| "fire (PublishResumed k r) s = snd (publish_resume k r s)"
| "fire StopPublishingCalled s = stopPublishing s"

definition run :: "event list \<Rightarrow> PublishService \<Rightarrow> PublishService" where
  "run es s = fold fire es s"

text \<open>
  \<^verbatim>\<open>init\<close> is started once, by the constructor, and nothing but its last resumption gives
  the service its first credential record: when that resumption comes, there is no record
  yet. A run is scheduled when its events respect this; every run of the program is.
\<close>

fun enabled :: "event \<Rightarrow> PublishService \<Rightarrow> bool" where
  "enabled (GithubInfoSettled info name r) s = (githubInfo s = None)"
| "enabled e s = True"

fun scheduled :: "event list \<Rightarrow> PublishService \<Rightarrow> bool" where
  "scheduled [] s = True"
| "scheduled (e # es) s = (enabled e s \<and> scheduled es (fire e s))"

text \<open>There is a credential record and it has the three required keys.\<close>

definition has_required_keys :: "obj option \<Rightarrow> bool" where
  "has_required_keys info =
     (case info of
        None \<Rightarrow> False
      | Some ob \<Rightarrow> list_all (\<lambda>k. map_of ob k \<noteq> None) requiredKeys)"

text \<open>The file lists handed to \<^verbatim>\<open>git.push\<close>, oldest first.\<close>

fun pushes :: "call list \<Rightarrow> string list list" where
  "pushes [] = []"
| "pushes (GitPush fs n # cs) = fs # pushes cs"
| "pushes (c # cs) = pushes cs"

text \<open>
  The spec's words, over a run: the file list of the most recent successful generate
  (\<open>cur\<close> before the run), and what each push step should pass accordingly.
\<close>

fun latest_generated :: "string list \<Rightarrow> event list \<Rightarrow> string list" where
  "latest_generated cur [] = cur"
| "latest_generated cur (GenerateSiteSettled (Generated fs) # es) = latest_generated fs es"
| "latest_generated cur (e # es) = latest_generated cur es"

fun expected_pushes :: "string list \<Rightarrow> event list \<Rightarrow> string list list" where
  "expected_pushes cur [] = []"
| "expected_pushes cur (GenerateSiteSettled (Generated fs) # es) = expected_pushes fs es"
| "expected_pushes cur (PublishResumed (AwaitTimeout n) r # es) = cur # expected_pushes cur es"
| "expected_pushes cur (e # es) = expected_pushes cur es"

subsection \<open>The selfish proxy\<close>



















subsection \<open>Reading back, and sample values\<close>

text \<open>The number a string of decimal digits denotes.\<close>

definition decimal_value :: "string \<Rightarrow> nat" where
  "decimal_value ds = foldl (\<lambda>a c. 10 * a + (of_char c - 48)) 0 ds"

text \<open>A complete credential record, and a service that holds it with a ready repository.\<close>

definition sample_info :: obj where
  "sample_info =
     [(''userName'', JString ''a''), (''email'', JString ''b@x.com''), (''token'', JString ''t'')]"

definition sample_service :: PublishService where
  "sample_service = new_service\<lparr>localRepoStatus := Ready, githubInfo := Some sample_info\<rparr>"



text \<open>
  A run that loads a credential record without \<^verbatim>\<open>email\<close>: the secret store has a token, the
  saved settings have a user name only, and the default record is empty.
\<close>

definition partial_run :: "event list" where
  "partial_run =
     [Constructed,
      OutputDirSettled (Resolved ''/out''),
      GithubTokenSettled [] (Resolved (JString ''t'')),
      GithubInfoSettled [(''token'', JString ''t'')] ''pages''
        (Resolved [(''userName'', JString ''a'')])]"

text \<open>
  A run: the service is constructed and loads its credentials, a publish goes through, a
  generate succeeds with two files, a second generate fails, and a second publish reaches
  its push.
\<close>

definition sample_run :: "event list" where
  "sample_run =
     [Constructed,
      OutputDirSettled (Resolved ''/out''),
      GithubTokenSettled [] (Resolved (JString ''t'')),
      GithubInfoSettled [(''token'', JString ''t'')] ''pages''
        (Resolved [(''userName'', JString ''a''), (''email'', JString ''b@x.com'')]),
      Emitted (LocalRepoStatusChanged Ready),
      PublishCalled False,
      PublishResumed (AwaitTimeout False) (Resolved ()),
      PublishResumed AwaitPush (Resolved ()),
      GenerateSiteCalled False,
      GenerateSiteSettled (Generated [''index.html'', ''about.html'']),
      GenerateSiteCalled False,
      GenerateSiteSettled (GenerationFailed (MString ''disk full'')),
      PublishCalled False,
      PublishResumed (AwaitTimeout False) (Resolved ())]"

section \<open>Auxiliary facts\<close>

subsection \<open>Objects\<close>

lemma isEmpty_isUnset: "isEmpty v = isUnset v"
  by (cases v) (simp_all add: isUnset_def isNil_def)

lemma map_of_assign: "map_of (assign tgt src) = map_of tgt ++ map_of (rev src)"
  unfolding assign_def
proof (induction src arbitrary: tgt)
  case Nil
  show ?case by simp
next
  case (Cons kv src)
  show ?case
    by (cases kv)
       (simp add: Cons.IH AList.update_conv' map_add_upd_left fun_eq_iff map_add_def
          split: option.splits)
qed

lemma map_of_rev_distinct: "distinct (map fst xs) \<Longrightarrow> map_of (rev xs) = map_of xs"
proof (induction xs)
  case Nil
  show ?case by simp
next
  case (Cons x xs)
  then have "fst x \<notin> fst ` set xs" and ih: "map_of (rev xs) = map_of xs" by simp_all
  then have "map_of xs (fst x) = None" by (simp add: map_of_eq_None_iff)
  then show ?case
    by (cases x) (auto simp add: ih map_add_def fun_eq_iff split: option.splits)
qed

lemma map_of_assign_distinct:
  "distinct (map fst src) \<Longrightarrow> map_of (assign tgt src) = map_of tgt ++ map_of src"
  by (simp add: map_of_assign map_of_rev_distinct)

lemma map_of_omit: "map_of (omit ob keys) k = (if k \<in> set keys then None else map_of ob k)"
  by (induction ob keys rule: omit.induct) (auto simp add: AList.delete_conv)

lemma distinct_omit: "distinct (map fst ob) \<Longrightarrow> distinct (map fst (omit ob keys))"
  by (induction ob keys rule: omit.induct) (simp_all add: AList.distinct_delete)

lemma keys_omit: "fst ` set (omit ob keys) = fst ` set ob - set keys"
  by (induction ob keys rule: omit.induct) (auto simp add: AList.delete_keys simp flip: set_map)

lemma map_of_rev_omit: "k \<in> set keys \<Longrightarrow> map_of (rev (omit ob keys)) k = None"
  by (simp add: map_of_eq_None_iff keys_omit)

subsection \<open>Decimal numerals\<close>

lemma digit_value: "d < 10 \<Longrightarrow> of_char (digit d) = 48 + d"
proof -
  assume "d < 10"
  then have "d \<in> {0, 1, 2, 3, 4, 5, 6, 7, 8, 9}" by auto
  then show ?thesis by (auto simp add: digit_def)
qed

lemma digit_in: "d < 10 \<Longrightarrow> digit d \<in> set ''0123456789''"
proof -
  assume "d < 10"
  then have "d \<in> {0, 1, 2, 3, 4, 5, 6, 7, 8, 9}" by auto
  then show ?thesis by (auto simp add: digit_def)
qed

lemma digits_string_of_nat: "set (string_of_nat n) \<subseteq> set ''0123456789''"
proof (induction n rule: string_of_nat.induct)
  case (1 n)
  show ?case
  proof (cases "n < 10")
    case True
    then show ?thesis
      using digit_in [of n] by (subst string_of_nat.simps) simp
  next
    case False
    with 1 have "set (string_of_nat (n div 10)) \<subseteq> set ''0123456789''" by simp
    moreover have "digit (n mod 10) \<in> set ''0123456789''" by (rule digit_in) simp
    ultimately show ?thesis
      using False by (subst string_of_nat.simps) simp
  qed
qed

lemma decimal_value_string_of_nat: "decimal_value (string_of_nat n) = n"
proof (induction n rule: string_of_nat.induct)
  case (1 n)
  show ?case
  proof (cases "n < 10")
    case True
    then show ?thesis
      by (subst string_of_nat.simps) (simp add: decimal_value_def digit_value)
  next
    case False
    with 1 have "decimal_value (string_of_nat (n div 10)) = n div 10" by simp
    with False show ?thesis
      by (subst string_of_nat.simps) (simp add: decimal_value_def digit_value)
  qed
qed

subsection \<open>What the methods leave alone\<close>

lemma isGithubInfoValid_calls: "isGithubInfoValid (calls_update f s) = isGithubInfoValid s"
  by (simp add: isGithubInfoValid_def)

lemma githubInfo_initGithubClient [simp]: "githubInfo (initGithubClient name s) = githubInfo s"
  by (simp add: initGithubClient_def invoke_def split: option.splits)

lemma files_initGithubClient [simp]: "files (initGithubClient name s) = files s"
  by (simp add: initGithubClient_def invoke_def split: option.splits)

lemma calls_initGithubClient:
  "calls (initGithubClient name s) =
     calls s @ (case githubInfo s of
                  None \<Rightarrow> []
                | Some info \<Rightarrow>
                    if isGithubInfoValid s then [GithubInit info, GithubGetRepositoryName] else [])"
  by (simp add: initGithubClient_def invoke_def split: option.splits)

lemma pushes_append: "pushes (cs @ ds) = pushes cs @ pushes ds"
  by (induction cs rule: pushes.induct) simp_all

lemma pushes_initGithubClient [simp]: "pushes (calls (initGithubClient name s)) = pushes (calls s)"
  by (simp add: calls_initGithubClient pushes_append split: option.splits)

lemma files_publish_catch [simp]: "files (snd (publish_catch e s)) = files s"
  by (cases e) (simp_all add: publish_finally_def)

lemma calls_publish_catch [simp]: "calls (snd (publish_catch e s)) = calls s"
  by (cases e) (simp_all add: publish_finally_def)

lemma token_kept:
  "map_option (\<lambda>info. map_of info ''token'') (githubInfo (saveGithubInfo p name s)) =
   map_option (\<lambda>info. map_of info ''token'') (githubInfo s)"
  by (cases "githubInfo s")
     (simp_all add: saveGithubInfo_def Let_def invoke_def map_of_assign map_add_def
        map_of_rev_omit del: omit.simps)

subsection \<open>Runs\<close>


lemma files_fire:
  "files (fire e s) = (case e of GenerateSiteSettled (Generated fs) \<Rightarrow> fs | _ \<Rightarrow> files s)"
proof (cases e)
  case (OutputDirSettled r)
  then show ?thesis by (cases r) (simp_all add: invoke_def)
next
  case (GithubTokenSettled d r)
  then show ?thesis by (cases r) (simp_all add: invoke_def)
next
  case (GithubInfoSettled i n r)
  then show ?thesis by (cases r) (simp_all add: invoke_def)
next
  case (Emitted x)
  then show ?thesis
    by (cases x) (simp_all add: refreshPublishingProgress_def refreshGeneratingProgress_def
        handleLocalRepoStatusChanged_def Let_def)
next
  case (SaveGithubInfoCalled i n)
  then show ?thesis
    by (simp add: saveGithubInfo_def invoke_def Let_def split: option.splits)
next
  case (GenerateSiteSettled r)
  then show ?thesis by (cases r) simp_all
next
  case (PublishResumed k r)
  then show ?thesis
    by (cases "(k, r, s)" rule: publish_resume.cases) (simp_all add: invoke_def publish_finally_def)
qed (simp_all add: init_def invoke_def generateSite_def refreshGeneratingProgress_def
      publish_def Let_def refreshPublishingProgress_def stopPublishing_def)

lemma pushes_fire:
  "pushes (calls (fire e s)) =
     pushes (calls s) @ (case e of PublishResumed (AwaitTimeout n) r \<Rightarrow> [files s] | _ \<Rightarrow> [])"
proof (cases e)
  case (OutputDirSettled r)
  then show ?thesis by (cases r) (simp_all add: invoke_def pushes_append)
next
  case (GithubTokenSettled d r)
  then show ?thesis by (cases r) (simp_all add: invoke_def pushes_append)
next
  case (GithubInfoSettled i n r)
  then show ?thesis by (cases r) (simp_all add: invoke_def pushes_append)
next
  case (Emitted x)
  then show ?thesis
    by (cases x) (simp_all add: refreshPublishingProgress_def refreshGeneratingProgress_def
        handleLocalRepoStatusChanged_def Let_def)
next
  case (SaveGithubInfoCalled i n)
  then show ?thesis
    by (simp add: saveGithubInfo_def invoke_def Let_def pushes_append split: option.splits)
next
  case (GenerateSiteSettled r)
  then show ?thesis by (cases r) simp_all
next
  case (PublishResumed k r)
  then show ?thesis
    by (cases "(k, r, s)" rule: publish_resume.cases)
       (simp_all add: invoke_def publish_finally_def pushes_append)
qed (simp_all add: init_def invoke_def generateSite_def refreshGeneratingProgress_def
      publish_def Let_def refreshPublishingProgress_def stopPublishing_def pushes_append)

lemma latest_generated_step:
  "latest_generated cur (e # es) =
     latest_generated (case e of GenerateSiteSettled (Generated fs) \<Rightarrow> fs | _ \<Rightarrow> cur) es"
  by (cases "(cur, e # es)" rule: latest_generated.cases) simp_all

lemma expected_pushes_step:
  "expected_pushes cur (e # es) =
     (case e of PublishResumed (AwaitTimeout n) r \<Rightarrow> [cur] | _ \<Rightarrow> []) @
     expected_pushes (case e of GenerateSiteSettled (Generated fs) \<Rightarrow> fs | _ \<Rightarrow> cur) es"
  by (cases "(cur, e # es)" rule: expected_pushes.cases) simp_all

lemma run_files: "files (run es s) = latest_generated (files s) es"
  unfolding run_def
proof (induction es arbitrary: s)
  case Nil
  show ?case by simp
next
  case (Cons e es)
  show ?case by (simp only: fold_simps Cons.IH files_fire latest_generated_step)
qed

lemma run_pushes:
  "pushes (calls (run es s)) = pushes (calls s) @ expected_pushes (files s) es"
  unfolding run_def
proof (induction es arbitrary: s)
  case Nil
  show ?case by simp
next
  case (Cons e es)
  show ?case
    by (simp only: fold_simps Cons.IH files_fire pushes_fire expected_pushes_step append_assoc)
qed

subsection \<open>Publishing needs the required keys\<close>

lemma valid_has_required_keys: "isGithubInfoValid s \<Longrightarrow> has_required_keys (githubInfo s)"
  by (cases "githubInfo s")
     (auto simp add: isGithubInfoValid_def has_required_keys_def requiredKeys_def
        split: option.splits)

lemma assign_keeps_key: "map_of tgt k \<noteq> None \<Longrightarrow> map_of (assign tgt src) k \<noteq> None"
  by (simp add: map_of_assign map_add_def split: option.splits)

lemma assign_keeps_required:
  "has_required_keys (Some tgt) \<Longrightarrow> has_required_keys (Some (assign tgt src))"
  using assign_keeps_key [of tgt _ src]
  by (simp add: has_required_keys_def requiredKeys_def)

lemma isPublishing_initGithubClient [simp]:
  "isPublishing (initGithubClient name s) = isPublishing s"
  by (simp add: initGithubClient_def invoke_def split: option.splits)

lemma saveGithubInfo_keeps:
  "isPublishing (saveGithubInfo p name s) = isPublishing s \<and>
   (has_required_keys (githubInfo s) \<longrightarrow> has_required_keys (githubInfo (saveGithubInfo p name s)))"
  by (cases "githubInfo s")
     (simp_all add: saveGithubInfo_def Let_def invoke_def assign_keeps_required
        del: omit.simps)

lemma publish_catch_keeps [simp]:
  "\<not> isPublishing (snd (publish_catch e s))" "githubInfo (snd (publish_catch e s)) = githubInfo s"
  by (cases e; simp add: publish_finally_def)+

lemma publish_resume_keeps:
  "(isPublishing (snd (publish_resume k r s)) \<longrightarrow> isPublishing s) \<and>
   githubInfo (snd (publish_resume k r s)) = githubInfo s"
  by (cases "(k, r, s)" rule: publish_resume.cases) (simp_all add: invoke_def publish_finally_def)

lemma publish_keeps:
  "(isPublishing (snd (publish c s)) \<longrightarrow> isPublishing s \<or> isGithubInfoValid s) \<and>
   githubInfo (snd (publish c s)) = githubInfo s"
  by (simp add: publish_def Let_def invoke_def refreshPublishingProgress_def)

lemma fire_keeps:
  assumes "enabled e s" and "isPublishing s \<longrightarrow> has_required_keys (githubInfo s)"
  shows "isPublishing (fire e s) \<longrightarrow> has_required_keys (githubInfo (fire e s))"
proof (cases e)
  case Constructed
  with assms show ?thesis by (simp add: init_def invoke_def)
next
  case (OutputDirSettled r)
  with assms show ?thesis by (cases r) (simp_all add: invoke_def)
next
  case (GithubTokenSettled d r)
  with assms show ?thesis by (cases r) (simp_all add: invoke_def)
next
  case (GithubInfoSettled i n r)
  with assms have "\<not> isPublishing s" by (auto simp add: has_required_keys_def)
  with GithubInfoSettled show ?thesis by (cases r) simp_all
next
  case (Emitted x)
  with assms show ?thesis
    by (cases x) (simp_all add: refreshPublishingProgress_def refreshGeneratingProgress_def
        handleLocalRepoStatusChanged_def Let_def)
next
  case (SaveGithubInfoCalled i n)
  with assms show ?thesis using saveGithubInfo_keeps [of i n s] by simp
next
  case (GenerateSiteCalled f)
  with assms show ?thesis
    by (simp add: generateSite_def invoke_def refreshGeneratingProgress_def)
next
  case (GenerateSiteSettled r)
  with assms show ?thesis by (cases r) simp_all
next
  case (PublishCalled c)
  with assms show ?thesis
    using publish_keeps [of c s] valid_has_required_keys [of s] by auto
next
  case (PublishResumed k r)
  with assms show ?thesis using publish_resume_keeps [of k r s] by auto
next
  case StopPublishingCalled
  then show ?thesis by (simp add: stopPublishing_def invoke_def)
qed

lemma scheduled_keeps:
  "scheduled es s \<Longrightarrow> isPublishing s \<longrightarrow> has_required_keys (githubInfo s) \<Longrightarrow>
   isPublishing (run es s) \<longrightarrow> has_required_keys (githubInfo (run es s))"
  unfolding run_def
proof (induction es arbitrary: s)
  case Nil
  then show ?case by simp
next
  case (Cons e es)
  from Cons.prems have "enabled e s" and "scheduled es (fire e s)" by simp_all
  moreover from this Cons.prems(2) have
    "isPublishing (fire e s) \<longrightarrow> has_required_keys (githubInfo (fire e s))"
    by (simp add: fire_keeps)
  ultimately show ?case using Cons.IH [of "fire e s"] by simp
qed

lemma scheduled_idle:
  assumes "scheduled es new_service"
    and "\<not> has_required_keys (githubInfo (run es new_service))"
  shows "\<not> isPublishing (run es new_service)"
proof -
  have "isPublishing new_service \<longrightarrow> has_required_keys (githubInfo new_service)"
    by (simp add: new_service_def)
  with assms(1) have
    "isPublishing (run es new_service) \<longrightarrow> has_required_keys (githubInfo (run es new_service))"
    by (rule scheduled_keeps)
  with assms(2) show ?thesis by blast
qed

subsection \<open>The proxy\<close>















section \<open>The claims\<close>

text \<open>
  C1. The claim: a \<^verbatim>\<open>stopPublishing\<close> made during the delay of \<^verbatim>\<open>publish\<close> keeps the push from
  being invoked, and the result ends \<^verbatim>\<open>Terminated\<close>. The code does not do it. A service with
  complete credentials and a ready repository starts \<^verbatim>\<open>publish(false)\<close>, which sets
  \<^verbatim>\<open>isPublishing\<close> and waits for its timer; \<^verbatim>\<open>stopPublishing\<close> is called, which clears the
  flag and sends the terminate request; the timer fires. The push is then invoked, after
  the terminate request, and when it resolves the result is \<^verbatim>\<open>Success\<close>. In every state the
  resumption after the timer invokes the push: nothing is checked after the delay.
\<close>

theorem stopPublishing_then_push_invoked:
  "fst (publish False sample_service) = Awaiting (AwaitTimeout False) \<and>
   isPublishing (snd (publish False sample_service)) \<and>
   calls (snd (publish_resume (AwaitTimeout False) (Resolved ())
      (stopPublishing (snd (publish False sample_service))))) = [GitTerminate, GitPush [] False] \<and>
   result (publishingProgress (snd (publish_resume AwaitPush (Resolved ())
      (snd (publish_resume (AwaitTimeout False) (Resolved ())
         (stopPublishing (snd (publish False sample_service)))))))) = Some Success \<and>
   calls (snd (publish_resume (AwaitTimeout n) r (stopPublishing s))) =
     calls s @ [GitTerminate, GitPush (files s) n]"
  by (simp add: sample_service_def sample_info_def new_service_def publish_def
      isGithubInfoValid_def requiredKeys_def some_def needToInit_def isRepositoryMissing_def
      stopPublishing_def invoke_def publish_finally_def initialPublishProgress_def Let_def)

text \<open>
  C2. A call of \<^verbatim>\<open>publish\<close> made while \<^verbatim>\<open>isPublishing\<close> is true returns at once, without
  an error; every field of the service is as before, and so is the log of the calls to the
  collaborators.
\<close>

theorem publish_while_publishing:
  "isPublishing s \<Longrightarrow> publish needToCreateRepo s = (Returned, s)"
  by (simp add: publish_def)

theorem publish_while_publishing_witness:
  "isPublishing (sample_service\<lparr>isPublishing := True\<rparr>) \<and>
   publish True (sample_service\<lparr>isPublishing := True\<rparr>) =
     (Returned, sample_service\<lparr>isPublishing := True\<rparr>)"
proof -
  have busy: "isPublishing (sample_service\<lparr>isPublishing := True\<rparr>)" by simp
  show ?thesis
    using busy publish_while_publishing [OF busy, of True]
    by - (intro conjI, assumption+)
qed

text \<open>
  C3. When \<^verbatim>\<open>publish\<close> passes both guards, \<^verbatim>\<open>needToInit\<close> is the disjunction of: the last
  result is \<^verbatim>\<open>Fail\<close>, the caller asked to create the repository, the local repository
  status is \<^verbatim>\<open>Fail\<close>. When it holds, the publishing progress is the initial one when
  \<^verbatim>\<open>publish\<close> first suspends (otherwise it is untouched), and the flag travels with the
  activation: after the creation of the repository it is still the flag the timer waits
  with, and when the timer fires it is the second argument of \<^verbatim>\<open>git.push\<close>.
\<close>

theorem publish_needToInit:
  assumes "\<not> isPublishing s" and "isGithubInfoValid s"
  shows "needToInit c s =
       (result (publishingProgress s) = Some PublishResults.Fail \<or> c \<or>
        localRepoStatus s = LocalRepoStatus.Fail) \<and>
     fst (publish c s) =
       Awaiting (if c \<and> localRepoStatus s = MissingRepository
                 then AwaitCreateRepository (needToInit c s)
                 else AwaitTimeout (needToInit c s)) \<and>
     publishingProgress (snd (publish c s)) =
       (if needToInit c s then initialPublishProgress else publishingProgress s) \<and>
     publish_resume (AwaitCreateRepository (needToInit c s)) (Resolved ()) t =
       (Awaiting (AwaitTimeout (needToInit c s)), t) \<and>
     publish_resume (AwaitTimeout (needToInit c s)) r t =
       (Awaiting AwaitPush, t\<lparr>calls := calls t @ [GitPush (files t) (needToInit c s)]\<rparr>)"
  using assms
  by (simp add: publish_def needToInit_def Let_def isRepositoryMissing_def invoke_def
      refreshPublishingProgress_def assign_pp_def whole_pp_def initialPublishProgress_def)

theorem publish_needToInit_witness:
  "\<not> isPublishing (sample_service\<lparr>localRepoStatus := LocalRepoStatus.Fail,
        publishingProgress := \<lparr>phase = ''push'', message = ''done'', result = Some Success\<rparr>\<rparr>) \<and>
   isGithubInfoValid (sample_service\<lparr>localRepoStatus := LocalRepoStatus.Fail,
        publishingProgress := \<lparr>phase = ''push'', message = ''done'', result = Some Success\<rparr>\<rparr>) \<and>
   fst (publish False (sample_service\<lparr>localRepoStatus := LocalRepoStatus.Fail,
        publishingProgress := \<lparr>phase = ''push'', message = ''done'', result = Some Success\<rparr>\<rparr>))
     = Awaiting (AwaitTimeout True) \<and>
   publishingProgress (snd (publish False (sample_service\<lparr>localRepoStatus := LocalRepoStatus.Fail,
        publishingProgress := \<lparr>phase = ''push'', message = ''done'', result = Some Success\<rparr>\<rparr>)))
     = \<lparr>phase = [], message = [], result = None\<rparr> \<and>
   publish_resume (AwaitTimeout True) (Resolved ()) sample_service =
     (Awaiting AwaitPush, sample_service\<lparr>calls := [GitPush [] True]\<rparr>)"
proof -
  let ?s = "sample_service\<lparr>localRepoStatus := LocalRepoStatus.Fail,
        publishingProgress := \<lparr>phase = ''push'', message = ''done'', result = Some Success\<rparr>\<rparr>"
  have idle: "\<not> isPublishing ?s"
    by (simp add: sample_service_def new_service_def)
  have valid: "isGithubInfoValid ?s"
    by (simp add: sample_service_def sample_info_def new_service_def isGithubInfoValid_def
        requiredKeys_def some_def)
  have flag: "needToInit False ?s"
    by (simp add: needToInit_def sample_service_def new_service_def)
  have waits: "fst (publish False ?s) = Awaiting (AwaitTimeout True)"
    using idle valid flag by (simp add: publish_def Let_def)
  have reset: "publishingProgress (snd (publish False ?s)) =
      \<lparr>phase = [], message = [], result = None\<rparr>"
    using idle valid flag
    by (simp add: publish_def Let_def refreshPublishingProgress_def assign_pp_def whole_pp_def
        initialPublishProgress_def)
  have pushed: "publish_resume (AwaitTimeout True) (Resolved ()) sample_service =
      (Awaiting AwaitPush, sample_service\<lparr>calls := [GitPush [] True]\<rparr>)"
    by (simp add: invoke_def sample_service_def new_service_def)
  show ?thesis
    using publish_needToInit [OF idle valid, of False sample_service "Resolved ()"]
      idle valid waits reset pushed
    by - (intro conjI, assumption+)
qed

text \<open>
  C4. The credentials are valid exactly when there is a record in which \<^verbatim>\<open>userName\<close>,
  \<^verbatim>\<open>email\<close> and \<^verbatim>\<open>token\<close> are each present and hold a value that is not unset (not
  \<^verbatim>\<open>null\<close>, not \<^verbatim>\<open>undefined\<close>, not the empty string). In every state a scheduled run of a
  new service leads to, when the record is null or lacks one of the three fields, the
  credentials are invalid and a call of \<^verbatim>\<open>publish\<close> throws, leaving the service as it was:
  no publish is in flight in such a state. In any state, \<^verbatim>\<open>publish\<close> throws on invalid
  credentials when no publish is in flight.
\<close>

theorem isGithubInfoValid_iff:
  "(isGithubInfoValid s \<longleftrightarrow>
     (\<exists>info u e t. githubInfo s = Some info \<and>
        map_of info ''userName'' = Some u \<and> \<not> isUnset u \<and>
        map_of info ''email'' = Some e \<and> \<not> isUnset e \<and>
        map_of info ''token'' = Some t \<and> \<not> isUnset t)) \<and>
   (scheduled es new_service \<and>
    (githubInfo (run es new_service) = None \<or>
     (\<exists>info k. githubInfo (run es new_service) = Some info \<and>
        k \<in> {''userName'', ''email'', ''token''} \<and> map_of info k = None)) \<longrightarrow>
      \<not> isGithubInfoValid (run es new_service) \<and>
      publish needToCreateRepo (run es new_service) =
        (Threw (Error ''invalid github info''), run es new_service)) \<and>
   (\<not> isPublishing s \<and> \<not> isGithubInfoValid s \<longrightarrow>
      publish needToCreateRepo s = (Threw (Error ''invalid github info''), s))"
proof (intro conjI impI)
  show iff: "isGithubInfoValid s \<longleftrightarrow>
     (\<exists>info u e t. githubInfo s = Some info \<and>
        map_of info ''userName'' = Some u \<and> \<not> isUnset u \<and>
        map_of info ''email'' = Some e \<and> \<not> isUnset e \<and>
        map_of info ''token'' = Some t \<and> \<not> isUnset t)"
  proof (cases "githubInfo s")
    case None
    then show ?thesis by (simp add: isGithubInfoValid_def requiredKeys_def)
  next
    case (Some info)
    then show ?thesis
      by (auto simp add: isGithubInfoValid_def requiredKeys_def some_def isEmpty_isUnset
          split: option.splits)
  qed
next
  assume "\<not> isPublishing s \<and> \<not> isGithubInfoValid s"
  then show "publish needToCreateRepo s = (Threw (Error ''invalid github info''), s)"
    by (simp add: publish_def)
next
  let ?s = "run es new_service"
  assume a: "scheduled es new_service \<and>
    (githubInfo ?s = None \<or>
     (\<exists>info k. githubInfo ?s = Some info \<and>
        k \<in> {''userName'', ''email'', ''token''} \<and> map_of info k = None))"
  then have lacks: "\<not> has_required_keys (githubInfo ?s)"
    by (auto simp add: has_required_keys_def requiredKeys_def)
  with a have idle: "\<not> isPublishing ?s" by (simp add: scheduled_idle)
  from lacks have invalid: "\<not> isGithubInfoValid ?s"
    using valid_has_required_keys by blast
  from idle invalid
  have "publish needToCreateRepo ?s = (Threw (Error ''invalid github info''), ?s)"
    by (simp add: publish_def)
  with invalid show "\<not> isGithubInfoValid ?s"
    and "publish needToCreateRepo ?s = (Threw (Error ''invalid github info''), ?s)"
    by simp_all
qed

theorem isGithubInfoValid_iff_witness:
  "isGithubInfoValid sample_service \<and>
   \<not> isGithubInfoValid (new_service\<lparr>githubInfo :=
       Some [(''userName'', JString ''a''), (''email'', JString ''b@x.com''),
             (''token'', JString [])]\<rparr>) \<and>
   scheduled partial_run new_service \<and>
   githubInfo (run partial_run new_service) =
     Some [(''token'', JString ''t''), (''userName'', JString ''a'')] \<and>
   publish False (run partial_run new_service) =
     (Threw (Error ''invalid github info''), run partial_run new_service) \<and>
   publish False new_service = (Threw (Error ''invalid github info''), new_service)"
proof -
  have valid: "isGithubInfoValid sample_service"
    by (simp add: sample_service_def sample_info_def new_service_def isGithubInfoValid_def
        requiredKeys_def some_def)
  have empty: "\<not> isGithubInfoValid (new_service\<lparr>githubInfo :=
       Some [(''userName'', JString ''a''), (''email'', JString ''b@x.com''),
             (''token'', JString [])]\<rparr>)"
    by (simp add: new_service_def isGithubInfoValid_def requiredKeys_def some_def)
  have sched: "scheduled partial_run new_service"
    by (simp add: partial_run_def new_service_def init_def invoke_def)
  have loaded: "githubInfo (run partial_run new_service) =
     Some [(''token'', JString ''t''), (''userName'', JString ''a'')]"
    by (simp add: partial_run_def run_def new_service_def init_def invoke_def assign_def)
  then have lacks: "githubInfo (run partial_run new_service) = None \<or>
     (\<exists>info k. githubInfo (run partial_run new_service) = Some info \<and>
        k \<in> {''userName'', ''email'', ''token''} \<and> map_of info k = None)"
    by (intro disjI2 exI [of _ "[(''token'', JString ''t''), (''userName'', JString ''a'')]"]
        exI [of _ "''email''"]) simp
  have start: "run [] new_service = new_service" by (simp add: run_def)
  have unloaded: "scheduled [] new_service \<and>
    (githubInfo (run [] new_service) = None \<or>
     (\<exists>info k. githubInfo (run [] new_service) = Some info \<and>
        k \<in> {''userName'', ''email'', ''token''} \<and> map_of info k = None))"
    by (simp add: run_def new_service_def)
  have missing: "publish False (run partial_run new_service) =
     (Threw (Error ''invalid github info''), run partial_run new_service)"
    using isGithubInfoValid_iff [of sample_service partial_run False] sched lacks by blast
  have null: "publish False new_service = (Threw (Error ''invalid github info''), new_service)"
    using isGithubInfoValid_iff [of sample_service "[]" False,
        THEN conjunct2, THEN conjunct1, THEN mp, OF unloaded, THEN conjunct2]
    by (simp only: start)
  show ?thesis
    using valid empty sched loaded missing null
    by - (intro conjI, assumption+)
qed

text \<open>
  C5. When the push rejects with a \<^verbatim>\<open>PublishError\<close>, \<^verbatim>\<open>publish\<close> returns normally, the
  result is the error's type and the message is the error's message (empty when it has
  none), a space and the explanation of the type, trimmed: \<^verbatim>\<open>Publishing terminated.\<close> for
  \<^verbatim>\<open>Terminated\<close>, the retry-and-report sentence for \<^verbatim>\<open>Fail\<close>, nothing for \<^verbatim>\<open>Success\<close>. When
  it rejects with anything else, \<^verbatim>\<open>publish\<close> throws that same error and the progress is
  not touched. Either way \<^verbatim>\<open>isPublishing\<close> is false afterwards.
\<close>

theorem publish_push_rejected:
  "publish_resume AwaitPush (Rejected (PublishError type msg)) s =
     (Returned,
      s\<lparr>publishingProgress := (publishingProgress s)
          \<lparr>result := Some type,
           message := trim ((case msg of None \<Rightarrow> [] | Some m \<Rightarrow> m) @ '' '' @
             (case type of
                Terminated \<Rightarrow> ''Publishing terminated.''
              | PublishResults.Fail \<Rightarrow>
                  ''This is an unexpected error, you can retry, and report it as a Github issue''
              | Success \<Rightarrow> []))\<rparr>,
        isPublishing := False\<rparr>) \<and>
   publish_resume AwaitPush (Rejected (Error m)) s =
     (Threw (Error m), s\<lparr>isPublishing := False\<rparr>)"
  by (cases type) (simp_all add: publish_finally_def)

theorem publish_push_rejected_witness:
  "publish_resume AwaitPush (Rejected (PublishError PublishResults.Fail (Some ''network down'')))
      (sample_service\<lparr>isPublishing := True\<rparr>) =
     (Returned,
      sample_service\<lparr>publishingProgress :=
        \<lparr>phase = [],
         message = ''network down This is an unexpected error, you can retry, and report it as a Github issue'',
         result = Some PublishResults.Fail\<rparr>, isPublishing := False\<rparr>) \<and>
   publish_resume AwaitPush (Rejected (PublishError Terminated None))
      (sample_service\<lparr>isPublishing := True\<rparr>) =
     (Returned,
      sample_service\<lparr>publishingProgress :=
        \<lparr>phase = [], message = ''Publishing terminated.'', result = Some Terminated\<rparr>,
        isPublishing := False\<rparr>) \<and>
   publish_resume AwaitPush (Rejected (Error ''boom'')) (sample_service\<lparr>isPublishing := True\<rparr>) =
     (Threw (Error ''boom''), sample_service\<lparr>isPublishing := False\<rparr>)"
proof -
  have failed: "publish_resume AwaitPush
      (Rejected (PublishError PublishResults.Fail (Some ''network down'')))
      (sample_service\<lparr>isPublishing := True\<rparr>) =
     (Returned,
      sample_service\<lparr>publishingProgress :=
        \<lparr>phase = [],
         message = ''network down This is an unexpected error, you can retry, and report it as a Github issue'',
         result = Some PublishResults.Fail\<rparr>, isPublishing := False\<rparr>)"
    by (simp add: publish_finally_def trim_def isWhiteSpace_def sample_service_def
        new_service_def initialPublishProgress_def)
  have terminated: "publish_resume AwaitPush (Rejected (PublishError Terminated None))
      (sample_service\<lparr>isPublishing := True\<rparr>) =
     (Returned,
      sample_service\<lparr>publishingProgress :=
        \<lparr>phase = [], message = ''Publishing terminated.'', result = Some Terminated\<rparr>,
        isPublishing := False\<rparr>)"
    by (simp add: publish_finally_def trim_def isWhiteSpace_def sample_service_def
        new_service_def initialPublishProgress_def)
  have rethrown: "publish_resume AwaitPush (Rejected (Error ''boom''))
      (sample_service\<lparr>isPublishing := True\<rparr>) =
     (Threw (Error ''boom''), sample_service\<lparr>isPublishing := False\<rparr>)"
    by (simp add: publish_finally_def)
  show ?thesis
    using publish_push_rejected [of PublishResults.Fail "Some ''network down''"
        "sample_service\<lparr>isPublishing := True\<rparr>" "''boom''"]
      failed terminated rethrown
    by - (intro conjI, assumption+)
qed

text \<open>
  C6. Over every run of a new service, \<^verbatim>\<open>files\<close> is the list returned by the most recent
  successful generate, and the empty list before any; every push was handed the list of
  the most recent successful generate before its timer fired (the empty list if none). A
  successful generate stores the list it got, a failed one leaves \<^verbatim>\<open>files\<close> as it was, and
  the push step passes \<^verbatim>\<open>files\<close> as it is then.
\<close>

theorem files_latest_generated:
  "files (run es new_service) = latest_generated [] es \<and>
   pushes (calls (run es new_service)) = expected_pushes [] es \<and>
   files (snd (generateSite_resume (Generated fs) s)) = fs \<and>
   files (snd (generateSite_resume (GenerationFailed text) s)) = files s \<and>
   files (snd (generateSite_resume (GenerationFailedNullish typeError) s)) = files s \<and>
   calls (snd (publish_resume (AwaitTimeout n) r s)) = calls s @ [GitPush (files s) n]"
  using run_files [of es new_service] run_pushes [of es new_service]
  by (simp add: new_service_def invoke_def)

theorem files_latest_generated_witness:
  "files (run sample_run new_service) = [''index.html'', ''about.html''] \<and>
   pushes (calls (run sample_run new_service)) = [[], [''index.html'', ''about.html'']]"
  using files_latest_generated [of sample_run]
  by (simp add: sample_run_def)

text \<open>
  C7. When the generator resolves with a list of N files, \<^verbatim>\<open>generateSite\<close> returns, stores
  the list in \<^verbatim>\<open>files\<close>, sets the result to \<^verbatim>\<open>success\<close> and the message to the decimal
  numeral of N (digits only, denoting N) followed by \<^verbatim>\<open> files in totals\<close>;
  \<^verbatim>\<open>isGenerating\<close> is false afterwards.
\<close>

theorem generateSite_success:
  "generateSite_resume (Generated fs) s =
     (Returned,
      s\<lparr>files := fs,
        generatingProgress :=
          \<lparr>g_result = Some ''success'',
           g_message = MString (string_of_nat (length fs) @ '' files in totals'')\<rparr>,
        isGenerating := False\<rparr>) \<and>
   set (string_of_nat (length fs)) \<subseteq> set ''0123456789'' \<and>
   decimal_value (string_of_nat (length fs)) = length fs"
  using digits_string_of_nat [of "length fs"] by (simp add: decimal_value_string_of_nat)

theorem generateSite_success_witness:
  "generateSite_resume (Generated [''a'', ''b'', ''c'', ''d'', ''e''])
      (snd (generateSite False sample_service)) =
     (Returned,
      sample_service\<lparr>files := [''a'', ''b'', ''c'', ''d'', ''e''],
        generatingProgress :=
          \<lparr>g_result = Some ''success'', g_message = MString ''5 files in totals''\<rparr>,
        calls := [GetLatestWarning, GeneratorGenerateSite]\<rparr>)"
  using generateSite_success [of "[''a'', ''b'', ''c'', ''d'', ''e'']"
      "snd (generateSite False sample_service)"]
  by (simp add: sample_service_def new_service_def generateSite_def invoke_def
      refreshGeneratingProgress_def string_of_nat.simps digit_def)




text \<open>
  C9. \<^verbatim>\<open>saveGithubInfo\<close> never changes the \<^verbatim>\<open>token\<close> of the credential state. Without a
  credential state it writes one error to the console and changes nothing else. With one
  (and the keys of the argument distinct, as an object's are), the new state holds, at
  every key but \<^verbatim>\<open>token\<close>, the argument's value where the argument has the key and the
  old value elsewhere; the record handed to the repository is the new state without
  \<^verbatim>\<open>token\<close>; and the github client is initialised again when the new state is valid.
\<close>

theorem saveGithubInfo_frame:
  "map_option (\<lambda>info. map_of info ''token'') (githubInfo (saveGithubInfo p name s)) =
     map_option (\<lambda>info. map_of info ''token'') (githubInfo s) \<and>
   (githubInfo s = None \<longrightarrow>
      saveGithubInfo p name s =
        s\<lparr>calls := calls s @ [ConsoleError ''this.githubInfo.value is null'']\<rparr>) \<and>
   (\<forall>current. githubInfo s = Some current \<and> distinct (map fst p) \<longrightarrow>
      (\<exists>merged. githubInfo (saveGithubInfo p name s) = Some merged \<and>
         (\<forall>k. map_of merged k =
            (if k = ''token'' then map_of current k
             else case map_of p k of None \<Rightarrow> map_of current k | Some v \<Rightarrow> Some v)) \<and>
         (\<forall>k. map_of (omit merged [''token'']) k =
            (if k = ''token'' then None else map_of merged k)) \<and>
         calls (saveGithubInfo p name s) =
           calls s @ SaveGithubInfo (omit merged [''token'']) #
             (if isGithubInfoValid (s\<lparr>githubInfo := Some merged\<rparr>)
              then [GithubInit merged, GithubGetRepositoryName] else [])))"
proof (intro conjI allI impI)
  show "map_option (\<lambda>info. map_of info ''token'') (githubInfo (saveGithubInfo p name s)) =
     map_option (\<lambda>info. map_of info ''token'') (githubInfo s)"
    by (rule token_kept)
next
  assume "githubInfo s = None"
  then show "saveGithubInfo p name s =
        s\<lparr>calls := calls s @ [ConsoleError ''this.githubInfo.value is null'']\<rparr>"
    by (simp add: saveGithubInfo_def invoke_def)
next
  fix current
  assume a: "githubInfo s = Some current \<and> distinct (map fst p)"
  define merged where "merged = assign current (omit p [''token''])"
  have d: "distinct (map fst (omit p [''token'']))"
    using a distinct_omit by blast
  have m: "map_of merged = map_of current ++ map_of (omit p [''token''])"
    unfolding merged_def using d by (rule map_of_assign_distinct)
  have g: "githubInfo (saveGithubInfo p name s) = Some merged"
    using a by (simp add: saveGithubInfo_def Let_def invoke_def merged_def)
  have l: "\<forall>k. map_of merged k =
            (if k = ''token'' then map_of current k
             else case map_of p k of None \<Rightarrow> map_of current k | Some v \<Rightarrow> Some v)"
    by (simp add: m map_add_def map_of_omit del: omit.simps)
  have o: "\<forall>k. map_of (omit merged [''token'']) k =
            (if k = ''token'' then None else map_of merged k)"
    by (simp add: map_of_omit del: omit.simps)
  have c: "calls (saveGithubInfo p name s) =
           calls s @ SaveGithubInfo (omit merged [''token'']) #
             (if isGithubInfoValid (s\<lparr>githubInfo := Some merged\<rparr>)
              then [GithubInit merged, GithubGetRepositoryName] else [])"
    unfolding merged_def using a
    by (simp add: saveGithubInfo_def Let_def invoke_def calls_initGithubClient
        isGithubInfoValid_calls)
  from g l o c show "\<exists>merged. githubInfo (saveGithubInfo p name s) = Some merged \<and>
         (\<forall>k. map_of merged k =
            (if k = ''token'' then map_of current k
             else case map_of p k of None \<Rightarrow> map_of current k | Some v \<Rightarrow> Some v)) \<and>
         (\<forall>k. map_of (omit merged [''token'']) k =
            (if k = ''token'' then None else map_of merged k)) \<and>
         calls (saveGithubInfo p name s) =
           calls s @ SaveGithubInfo (omit merged [''token'']) #
             (if isGithubInfoValid (s\<lparr>githubInfo := Some merged\<rparr>)
              then [GithubInit merged, GithubGetRepositoryName] else [])"
    by blast
qed

theorem saveGithubInfo_frame_witness:
  "githubInfo sample_service = Some sample_info \<and>
   distinct (map fst [(''token'', JString ''other''), (''email'', JString ''new@x.com''),
      (''branch'', JString ''main'')]) \<and>
   githubInfo (saveGithubInfo [(''token'', JString ''other''), (''email'', JString ''new@x.com''),
      (''branch'', JString ''main'')] ''pages'' sample_service) =
     Some [(''userName'', JString ''a''), (''email'', JString ''new@x.com''),
           (''token'', JString ''t''), (''branch'', JString ''main'')] \<and>
   calls (saveGithubInfo [(''token'', JString ''other''), (''email'', JString ''new@x.com''),
      (''branch'', JString ''main'')] ''pages'' sample_service) =
     [SaveGithubInfo [(''userName'', JString ''a''), (''email'', JString ''new@x.com''),
        (''branch'', JString ''main'')],
      GithubInit [(''userName'', JString ''a''), (''email'', JString ''new@x.com''),
        (''token'', JString ''t''), (''branch'', JString ''main'')],
      GithubGetRepositoryName] \<and>
   saveGithubInfo [(''token'', JString ''other'')] ''pages'' new_service =
     new_service\<lparr>calls := [ConsoleError ''this.githubInfo.value is null'']\<rparr>"
  using saveGithubInfo_frame [of "[(''token'', JString ''other''),
      (''email'', JString ''new@x.com''), (''branch'', JString ''main'')]" "''pages''" sample_service]
    saveGithubInfo_frame [of "[(''token'', JString ''other'')]" "''pages''" new_service]
  by (simp add: sample_service_def sample_info_def new_service_def saveGithubInfo_def Let_def
      invoke_def assign_def initGithubClient_def isGithubInfoValid_def requiredKeys_def some_def)




end
